theory Spec2Isabelle
  imports Main
begin

section \<open>Data model\<close>

text \<open>
  The mixins of \<^verbatim>\<open>CMSServer/mixins.py\<close> read four attributes of the requesting user:
  its identity (compared with \<^verbatim>\<open>==\<close> and used by the ORM filter), \<^verbatim>\<open>username\<close>,
  \<^verbatim>\<open>is_authenticated\<close> and \<^verbatim>\<open>is_superuser\<close>. The two flags are separate attributes of
  the object, and the code tests them separately, so they are separate fields here.
\<close>

record user =
  user_id :: nat
  username :: string
  is_authenticated :: bool
  is_superuser :: bool

text \<open>
  \<^verbatim>\<open>a == b\<close> on two model instances, and \<^verbatim>\<open>filter(user=b)\<close> in a query, compare primary
  keys.
\<close>

definition user_eq :: "user \<Rightarrow> user \<Rightarrow> bool" where
  "user_eq a b \<longleftrightarrow> user_id a = user_id b"

text \<open>
  The user of a request is either a logged-in \<^verbatim>\<open>User\<close>, whose \<^verbatim>\<open>is_authenticated\<close> is
  always true, or the \<^verbatim>\<open>AnonymousUser\<close>, whose \<^verbatim>\<open>is_superuser\<close> is false: a superuser
  is an account, so a user with \<^verbatim>\<open>is_superuser\<close> set is authenticated.
\<close>

definition django_user :: "user \<Rightarrow> bool" where
  "django_user u \<longleftrightarrow> (is_superuser u \<longrightarrow> is_authenticated u)"

text \<open>
  Modelled from the spec: the models \<^verbatim>\<open>Blog\<close> and \<^verbatim>\<open>Post\<close> of \<^verbatim>\<open>CMSServer/models.py\<close>,
  which is not among the sources. A Blog is owned by exactly one User and has a title
  and a description; a Post belongs to exactly one Blog; a User has at most one Blog,
  reached as \<^verbatim>\<open>user.blog\<close>. The fields of a Post other than its blog are kept as an
  association list.
\<close>

record blog =
  blog_id :: nat
  title :: string
  description :: string
  blog_user :: user

record post =
  post_id :: nat
  post_fields :: "(string \<times> string) list"
  post_blog :: blog

text \<open>The tables the persistence calls of the mixins read and write.\<close>

record db =
  blogs :: "blog list"
  posts :: "post list"

text \<open>
  The exceptions raised in \<^verbatim>\<open>mixins.py\<close>. \<^verbatim>\<open>PostEditorMixin\<close> raises the
  \<^verbatim>\<open>PermissionDenied\<close> of \<^verbatim>\<open>django.core.exceptions\<close> (the import at the top of the
  module); \<^verbatim>\<open>BlogOwnerPermissionMixin\<close> imports the class of the same name from
  \<^verbatim>\<open>rest_framework.exceptions\<close> inside the method, which is a different class.
  \<^verbatim>\<open>Http404\<close> stands for a failing \<^verbatim>\<open>get_object()\<close>.
\<close>

datatype error =
    DjangoPermissionDenied string
  | RestPermissionDenied string
  | AuthenticationError string
  | InvalidCredentialsError string
  | Http404

text \<open>
  A method that may raise and may change the tables returns its outcome together with
  the tables as they are when it returns or raises.
\<close>

type_synonym 'a result = "(error + 'a) \<times> db"

text \<open>
  The objects handed to the lifecycle hooks: a serializer with its \<^verbatim>\<open>save(**kwargs)\<close>
  method, where the only keyword the mixins ever pass is \<^verbatim>\<open>blog\<close> (\<open>None\<close>: no
  keyword), and a model instance with its \<^verbatim>\<open>delete()\<close> method.
\<close>

record serializer =
  save :: "blog option \<Rightarrow> db \<Rightarrow> db"

record 'a model_instance =
  obj :: 'a
  delete :: "db \<Rightarrow> db"

section \<open>PostReadonlyFieldsMixin\<close>

text \<open>
  \<^verbatim>\<open>ro = list(super().get_readonly_fields(request, obj))\<close>: the parent's list is the
  first argument. \<^verbatim>\<open>obj\<close> is \<open>None\<close> for a new object.
\<close>

definition get_readonly_fields :: "string list \<Rightarrow> user \<Rightarrow> 'a option \<Rightarrow> string list" where
  "get_readonly_fields super_fields request_user ob =
     (let ro = super_fields in
      if \<not> is_superuser request_user \<and> ob \<noteq> None \<and> ''blog'' \<notin> set ro
      then ro @ [''blog'']
      else ro)"

section \<open>PublicReadOnlyMixin\<close>

datatype permission_class = AllowAny | IsAuthenticated

text \<open>An instance of a permission class, as \<^verbatim>\<open>permission()\<close> builds it.\<close>

datatype permission = Permission permission_class

text \<open>\<^verbatim>\<open>self.action\<close> is a string, or \<open>None\<close> when the request maps to no action.\<close>

definition get_permissions :: "string option \<Rightarrow> permission list" where
  "get_permissions action =
     (let permission_classes =
        (if action = Some ''list'' \<or> action = Some ''retrieve''
         then [AllowAny]
         else [IsAuthenticated])
      in map Permission permission_classes)"

section \<open>BlogOwnerPermissionMixin\<close>

text \<open>
  \<^verbatim>\<open>self.get_object()\<close> is the framework's lookup of the target; its outcome is the
  first argument.
\<close>

definition BlogOwner_perform_update ::
  "error + blog \<Rightarrow> user \<Rightarrow> serializer \<Rightarrow> db \<Rightarrow> unit result" where
  "BlogOwner_perform_update get_object request_user ser s =
     (case get_object of
        Inl e \<Rightarrow> (Inl e, s)
      | Inr b \<Rightarrow>
          if \<not> user_eq (blog_user b) request_user \<and> \<not> is_superuser request_user
          then (Inl (RestPermissionDenied ''Only the owner of the blog can edit it''), s)
          else (Inr (), save ser None s))"

definition BlogOwner_perform_destroy ::
  "user \<Rightarrow> blog model_instance \<Rightarrow> db \<Rightarrow> unit result" where
  "BlogOwner_perform_destroy request_user inst s =
     (if \<not> user_eq (blog_user (obj inst)) request_user \<and> \<not> is_superuser request_user
      then (Inl (RestPermissionDenied ''Only the owner of the blog can delete it''), s)
      else (Inr (), delete inst s))"

section \<open>PostOwnerQuerysetAdminMixin and PostOwnerQuerysetViewSetMixin\<close>

text \<open>
  A queryset of posts is the list of its rows. \<^verbatim>\<open>qs.none()\<close> is the empty queryset and
  \<^verbatim>\<open>qs.filter(blog__user=u)\<close> keeps the rows whose blog's user is \<open>u\<close>. The base
  queryset \<^verbatim>\<open>super().get_queryset(...)\<close> is the first argument.
\<close>

type_synonym queryset = "post list"

definition none :: "queryset \<Rightarrow> queryset" where
  "none qs = []"

definition filter_blog_user :: "user \<Rightarrow> queryset \<Rightarrow> queryset" where
  "filter_blog_user u qs = filter (\<lambda>p. user_eq (blog_user (post_blog p)) u) qs"

definition Admin_get_queryset :: "queryset \<Rightarrow> user \<Rightarrow> queryset" where
  "Admin_get_queryset qs request_user =
     (if \<not> is_authenticated request_user then none qs
      else if \<not> is_superuser request_user then filter_blog_user request_user qs
      else qs)"

definition ViewSet_get_queryset :: "queryset \<Rightarrow> user \<Rightarrow> queryset" where
  "ViewSet_get_queryset qs request_user =
     (if \<not> is_authenticated request_user then qs
      else if \<not> is_superuser request_user then filter_blog_user request_user qs
      else qs)"

section \<open>PostEditorMixin\<close>

text \<open>A fresh primary key for a table whose keys are \<open>ids\<close>.\<close>

definition next_pk :: "nat list \<Rightarrow> nat" where
  "next_pk ids = Suc (fold max ids 0)"

text \<open>
  \<^verbatim>\<open>request.user.blog\<close>, the reverse accessor of the one-to-one relation: the blog
  whose user is the given one. When there is none the access raises an
  \<^verbatim>\<open>AttributeError\<close>, so \<^verbatim>\<open>hasattr(request.user, "blog")\<close> is false exactly on \<open>None\<close>.
\<close>

definition user_blog :: "db \<Rightarrow> user \<Rightarrow> blog option" where
  "user_blog s u = find (\<lambda>b. user_eq (blog_user b) u) (blogs s)"

text \<open>\<^verbatim>\<open>Blog.objects.create(title=..., description=..., user=...)\<close>: inserts and returns the row.\<close>

definition Blog_objects_create :: "string \<Rightarrow> string \<Rightarrow> user \<Rightarrow> db \<Rightarrow> blog \<times> db" where
  "Blog_objects_create t d u s =
     (let b = \<lparr>blog_id = next_pk (map blog_id (blogs s)), title = t, description = d,
                blog_user = u\<rparr>
      in (b, s\<lparr>blogs := blogs s @ [b]\<rparr>))"

definition perform_create :: "user \<Rightarrow> serializer \<Rightarrow> db \<Rightarrow> unit result" where
  "perform_create request_user ser s =
     (if \<not> is_authenticated request_user
      then (Inl (AuthenticationError ''Authentication required to create posts.''), s)
      else
        (case user_blog s request_user of
           None \<Rightarrow>
             (let (b, s') = Blog_objects_create (''Blog de '' @ username request_user)
                              ''Blog personal'' request_user s
              in (Inr (), save ser (Some b) s'))
         | Some b \<Rightarrow> (Inr (), save ser (Some b) s)))"

text \<open>
  \<^verbatim>\<open>can_edit_post\<close> is imported from \<^verbatim>\<open>CMSServer/permissions.py\<close>, which is not among
  the sources: it is a parameter. The authentication check comes before
  \<^verbatim>\<open>self.get_object()\<close> is evaluated.
\<close>

definition perform_update ::
  "(user \<Rightarrow> post \<Rightarrow> bool) \<Rightarrow> error + post \<Rightarrow> user \<Rightarrow> serializer \<Rightarrow> db \<Rightarrow> unit result" where
  "perform_update can_edit_post get_object request_user ser s =
     (if \<not> is_authenticated request_user
      then (Inl (AuthenticationError ''Authentication required to edit posts.''), s)
      else
        (case get_object of
           Inl e \<Rightarrow> (Inl e, s)
         | Inr p \<Rightarrow>
             if \<not> can_edit_post request_user p
             then (Inl (DjangoPermissionDenied ''You are not allowed to edit this post.''), s)
             else (Inr (), save ser None s)))"

definition perform_destroy ::
  "(user \<Rightarrow> post \<Rightarrow> bool) \<Rightarrow> user \<Rightarrow> post model_instance \<Rightarrow> db \<Rightarrow> unit result" where
  "perform_destroy can_edit_post request_user inst s =
     (if \<not> is_authenticated request_user
      then (Inl (AuthenticationError ''Authentication required to delete posts.''), s)
      else if \<not> can_edit_post request_user (obj inst)
      then (Inl (DjangoPermissionDenied ''You are not allowed to delete this post.''), s)
      else (Inr (), delete inst s))"

subsection \<open>The serializer of the Post endpoint\<close>

text \<open>
  What the REST framework's \<^verbatim>\<open>save(**kwargs)\<close> does for a serializer with no instance
  yet: the keyword arguments are merged over the validated data of the request, and a
  row is created from the result. \<open>vd_blog\<close> is the blog the client sent, if any.
  Without any blog nothing is stored.
\<close>

record validated_data =
  vd_fields :: "(string \<times> string) list"
  vd_blog :: "blog option"

definition serializer_create :: "validated_data \<Rightarrow> blog option \<Rightarrow> db \<Rightarrow> db" where
  "serializer_create vd kwargs_blog s =
     (let merged = (case kwargs_blog of None \<Rightarrow> vd_blog vd | Some b \<Rightarrow> Some b) in
      case merged of
        None \<Rightarrow> s
      | Some b \<Rightarrow>
          s\<lparr>posts := posts s @
             [\<lparr>post_id = next_pk (map post_id (posts s)), post_fields = vd_fields vd,
               post_blog = b\<rparr>]\<rparr>)"

definition post_serializer :: "validated_data \<Rightarrow> serializer" where
  "post_serializer vd = \<lparr>save = serializer_create vd\<rparr>"

section \<open>AuthenticationMixin\<close>

text \<open>
  The helper \<^verbatim>\<open>authenticate_user\<close> of \<^verbatim>\<open>CMSServer/utils.py\<close> is not among the sources: it
  is a parameter, returning a user or the falsy \<open>None\<close>.
\<close>

definition authenticate_user ::
  "(string \<Rightarrow> string \<Rightarrow> user option) \<Rightarrow> string \<Rightarrow> string \<Rightarrow> error + user" where
  "authenticate_user helper uname password =
     (case helper uname password of
        None \<Rightarrow> Inl (InvalidCredentialsError ''Invalid credentials'')
      | Some u \<Rightarrow> Inr u)"

section \<open>Example data\<close>

text \<open>
  The example of the specification: user A (\<open>alice\<close>) owns blog \<open>B1\<close> with post
  \<open>P1\<close>; user C (\<open>carol\<close>) owns blog \<open>B2\<close> with post \<open>P2\<close>. \<open>root\<close> is a
  superuser, \<open>dave\<close> a user who has no blog yet, \<open>anonymous\<close> a request that is not
  logged in.
\<close>

definition alice :: user where
  "alice = \<lparr>user_id = 1, username = ''alice'', is_authenticated = True, is_superuser = False\<rparr>"

definition carol :: user where
  "carol = \<lparr>user_id = 2, username = ''carol'', is_authenticated = True, is_superuser = False\<rparr>"

definition root :: user where
  "root = \<lparr>user_id = 3, username = ''root'', is_authenticated = True, is_superuser = True\<rparr>"

definition dave :: user where
  "dave = \<lparr>user_id = 4, username = ''dave'', is_authenticated = True, is_superuser = False\<rparr>"

definition anonymous :: user where
  "anonymous = \<lparr>user_id = 0, username = [], is_authenticated = False, is_superuser = False\<rparr>"

definition B1 :: blog where
  "B1 = \<lparr>blog_id = 1, title = ''Blog de alice'', description = ''Blog personal'', blog_user = alice\<rparr>"

definition B2 :: blog where
  "B2 = \<lparr>blog_id = 2, title = ''Blog de carol'', description = ''Blog personal'', blog_user = carol\<rparr>"

definition P1 :: post where
  "P1 = \<lparr>post_id = 1, post_fields = [(''title'', ''first'')], post_blog = B1\<rparr>"

definition P2 :: post where
  "P2 = \<lparr>post_id = 2, post_fields = [(''title'', ''second'')], post_blog = B2\<rparr>"

definition db0 :: db where
  "db0 = \<lparr>blogs = [B1, B2], posts = [P1, P2]\<rparr>"

text \<open>
  A serializer that renames a blog, instances whose \<^verbatim>\<open>delete()\<close> removes their row, a
  \<^verbatim>\<open>can_edit_post\<close> that lets the owner and superusers edit, a credential check, and
  a request body in which the client names somebody else's blog.
\<close>

definition retitle :: "blog \<Rightarrow> string \<Rightarrow> serializer" where
  "retitle b t =
     \<lparr>save = (\<lambda>kw s. s\<lparr>blogs := map (\<lambda>x. if blog_id x = blog_id b then x\<lparr>title := t\<rparr> else x) (blogs s)\<rparr>)\<rparr>"

definition blog_instance :: "blog \<Rightarrow> blog model_instance" where
  "blog_instance b =
     \<lparr>obj = b, delete = (\<lambda>s. s\<lparr>blogs := filter (\<lambda>x. blog_id x \<noteq> blog_id b) (blogs s)\<rparr>)\<rparr>"

definition post_instance :: "post \<Rightarrow> post model_instance" where
  "post_instance p =
     \<lparr>obj = p, delete = (\<lambda>s. s\<lparr>posts := filter (\<lambda>x. post_id x \<noteq> post_id p) (posts s)\<rparr>)\<rparr>"

definition owner_can_edit :: "user \<Rightarrow> post \<Rightarrow> bool" where
  "owner_can_edit u p \<longleftrightarrow> is_superuser u \<or> user_eq (blog_user (post_blog p)) u"

definition check_password :: "string \<Rightarrow> string \<Rightarrow> user option" where
  "check_password uname password =
     (if uname = ''alice'' \<and> password = ''secret'' then Some alice else None)"

definition client_data :: validated_data where
  "client_data = \<lparr>vd_fields = [(''title'', ''third'')], vd_blog = Some B2\<rparr>"

section \<open>Auxiliary facts\<close>

lemmas example_defs = alice_def carol_def root_def dave_def anonymous_def B1_def B2_def P1_def
  P2_def db0_def

lemma fold_max_ge: "y \<le> fold max ids (y::nat)"
  by (induction ids arbitrary: y) (auto intro: order_trans[OF max.cobounded2])

lemma fold_max_upper: "x \<in> set ids \<Longrightarrow> x \<le> fold max ids (y::nat)"
proof (induction ids arbitrary: y)
  case Nil
  then show ?case by simp
next
  case (Cons a ids)
  show ?case
  proof (cases "x = a")
    case True
    have "a \<le> max a y" by simp
    also have "\<dots> \<le> fold max ids (max a y)" by (rule fold_max_ge)
    finally show ?thesis using True by simp
  next
    case False
    with Cons show ?thesis by simp
  qed
qed

lemma next_pk_fresh: "next_pk ids \<notin> set ids"
proof
  assume "next_pk ids \<in> set ids"
  then have "next_pk ids \<le> fold max ids 0" by (rule fold_max_upper)
  then show False by (simp add: next_pk_def)
qed

lemma user_blog_Some:
  "user_blog s u = Some b \<Longrightarrow> user_eq (blog_user b) u \<and> b \<in> set (blogs s)"
  by (auto simp: user_blog_def find_Some_iff)

lemma Blog_objects_create_row:
  "Blog_objects_create t d u s = (b, s') \<Longrightarrow>
     title b = t \<and> description b = d \<and> blog_user b = u
     \<and> blog_id b \<notin> set (map blog_id (blogs s))
     \<and> blogs s' = blogs s @ [b] \<and> posts s' = posts s"
  using next_pk_fresh[of "map blog_id (blogs s)"]
  by (auto simp: Blog_objects_create_def Let_def)

lemma perform_create_no_blog:
  assumes "is_authenticated u" and "user_blog s u = None"
    and "Blog_objects_create (''Blog de '' @ username u) ''Blog personal'' u s = (b, s')"
  shows "perform_create u ser s = (Inr (), save ser (Some b) s')"
  using assms by (simp add: perform_create_def)

lemma perform_create_has_blog:
  assumes "is_authenticated u" and "user_blog s u = Some b"
  shows "perform_create u ser s = (Inr (), save ser (Some b) s)"
  using assms by (simp add: perform_create_def)

lemma save_post_serializer:
  "save (post_serializer vd) (Some b) s =
     s\<lparr>posts := posts s @
        [\<lparr>post_id = next_pk (map post_id (posts s)), post_fields = vd_fields vd,
          post_blog = b\<rparr>]\<rparr>"
  by (simp add: post_serializer_def serializer_create_def)

section \<open>The claims\<close>

subsection \<open>C1\<close>

text \<open>
  Claim C1. For an authenticated requesting user who is not a superuser, both
  \<^verbatim>\<open>get_queryset\<close> methods return exactly the posts of the base queryset whose blog's
  user is the requester, in the order of the base queryset. For a superuser both
  return the base queryset unfiltered. The requesting user is a user as a request
  carries it: a superuser is an authenticated account.
\<close>

theorem get_queryset_owner:
  "django_user u \<Longrightarrow>
     (is_authenticated u \<and> \<not> is_superuser u \<longrightarrow>
        ViewSet_get_queryset qs u = filter (\<lambda>p. user_eq (blog_user (post_blog p)) u) qs
        \<and> Admin_get_queryset qs u = filter (\<lambda>p. user_eq (blog_user (post_blog p)) u) qs)
     \<and> (is_superuser u \<longrightarrow>
        ViewSet_get_queryset qs u = qs \<and> Admin_get_queryset qs u = qs)"
  by (simp add: django_user_def ViewSet_get_queryset_def Admin_get_queryset_def
      filter_blog_user_def)

text \<open>
  The example of the specification: querying \<open>{P1, P2}\<close> as A returns \<open>{P1}\<close> only,
  and querying as a superuser returns \<open>{P1, P2}\<close>.
\<close>

theorem get_queryset_owner_witness:
  "django_user alice \<and> is_authenticated alice \<and> \<not> is_superuser alice
   \<and> ViewSet_get_queryset [P1, P2] alice = [P1]
   \<and> Admin_get_queryset [P1, P2] alice = [P1]
   \<and> django_user root \<and> is_superuser root
   \<and> ViewSet_get_queryset [P1, P2] root = [P1, P2]
   \<and> Admin_get_queryset [P1, P2] root = [P1, P2]"
proof -
  have a: "django_user alice" and r: "django_user root"
    by (simp_all add: django_user_def alice_def root_def)
  show ?thesis
    using a r get_queryset_owner[OF a, of "[P1, P2]"] get_queryset_owner[OF r, of "[P1, P2]"]
    by (simp add: example_defs user_eq_def)
qed

subsection \<open>C2\<close>

text \<open>
  Claim C2. For an unauthenticated request the admin mixin returns the empty queryset
  and the viewset mixin returns the base queryset unfiltered. The users on which the
  two mixins differ (on some base queryset) are exactly the unauthenticated ones; on a
  given base queryset the two results differ exactly when the user is unauthenticated
  and the base queryset is not empty.
\<close>

theorem get_queryset_unauthenticated:
  "(\<not> is_authenticated u \<longrightarrow> Admin_get_queryset qs u = [] \<and> ViewSet_get_queryset qs u = qs)
   \<and> ((\<exists>qs'. Admin_get_queryset qs' u \<noteq> ViewSet_get_queryset qs' u) \<longleftrightarrow> \<not> is_authenticated u)
   \<and> (Admin_get_queryset qs u \<noteq> ViewSet_get_queryset qs u \<longleftrightarrow> \<not> is_authenticated u \<and> qs \<noteq> [])"
proof -
  have "\<exists>qs' :: queryset. [] \<noteq> qs'" by (rule exI[of _ "[undefined]"]) simp
  then show ?thesis
    by (auto simp: ViewSet_get_queryset_def Admin_get_queryset_def none_def)
qed

text \<open>
  On the example, the two mixins differ for the anonymous request and agree for A.
\<close>

theorem get_queryset_unauthenticated_witness:
  "\<not> is_authenticated anonymous
   \<and> Admin_get_queryset [P1, P2] anonymous = []
   \<and> ViewSet_get_queryset [P1, P2] anonymous = [P1, P2]
   \<and> Admin_get_queryset [P1, P2] anonymous \<noteq> ViewSet_get_queryset [P1, P2] anonymous
   \<and> is_authenticated alice
   \<and> Admin_get_queryset [P1, P2] alice = ViewSet_get_queryset [P1, P2] alice"
  using get_queryset_unauthenticated[of anonymous "[P1, P2]"]
    get_queryset_unauthenticated[of alice "[P1, P2]"]
  by (simp add: anonymous_def alice_def)

subsection \<open>C3\<close>

text \<open>
  Claim C3, as amended. For a requesting user who is not a superuser and an existing
  object, \<open>''blog''\<close> is in the returned list. For a superuser, or for a new object
  (\<open>None\<close>), the parent's list is returned unchanged, so \<open>''blog''\<close> is in the result
  exactly when the parent's list already has it.
\<close>

theorem readonly_fields_blog_amended:
  "(\<not> is_superuser u \<and> ob \<noteq> None \<longrightarrow> ''blog'' \<in> set (get_readonly_fields ro u ob))
   \<and> (is_superuser u \<or> ob = None \<longrightarrow>
        get_readonly_fields ro u ob = ro
        \<and> (''blog'' \<in> set (get_readonly_fields ro u ob) \<longleftrightarrow> ''blog'' \<in> set ro))"
  by (auto simp: get_readonly_fields_def)

text \<open>
  The claim as written, "for a superuser or a new object \<open>''blog''\<close> is absent", fails
  when the parent class already lists \<open>''blog''\<close> as read-only: the mixin never removes
  a field.
\<close>

theorem readonly_fields_superuser_counterexample:
  "is_superuser root
   \<and> ''blog'' \<in> set (get_readonly_fields [''blog''] root (Some P1))
   \<and> ''blog'' \<in> set (get_readonly_fields [''blog''] alice (None :: post option))"
  by (simp add: get_readonly_fields_def root_def)

text \<open>
  With the parent's list \<open>[''title'']\<close>: the field is added for A editing \<open>P1\<close>, and
  not for the superuser nor for a new object.
\<close>

theorem readonly_fields_blog_amended_witness:
  "\<not> is_superuser alice \<and> Some P1 \<noteq> None
   \<and> ''blog'' \<in> set (get_readonly_fields [''title''] alice (Some P1))
   \<and> is_superuser root
   \<and> get_readonly_fields [''title''] root (Some P1) = [''title'']
   \<and> ''blog'' \<notin> set (get_readonly_fields [''title''] root (Some P1))
   \<and> get_readonly_fields [''title''] alice (None :: post option) = [''title'']"
  using readonly_fields_blog_amended[of alice "Some P1" "[''title'']"]
    readonly_fields_blog_amended[of root "Some P1" "[''title'']"]
    readonly_fields_blog_amended[of alice "None :: post option" "[''title'']"]
  by (simp add: alice_def root_def)

subsection \<open>C4\<close>

text \<open>
  Claim C4. In \<^verbatim>\<open>BlogOwnerPermissionMixin\<close>, when the requesting user is neither the
  owner of the target blog nor a superuser, \<^verbatim>\<open>perform_update\<close> and \<^verbatim>\<open>perform_destroy\<close>
  raise \<^verbatim>\<open>PermissionDenied\<close> and the tables are as before: neither
  \<^verbatim>\<open>serializer.save\<close> nor \<^verbatim>\<open>instance.delete\<close> has run. When the requester is the owner
  or a superuser, the outcome is that of the save, respectively the delete.
\<close>

theorem blog_owner_update_destroy:
  "(\<not> user_eq (blog_user b) u \<and> \<not> is_superuser u \<longrightarrow>
      (\<exists>msg. BlogOwner_perform_update (Inr b) u ser s = (Inl (RestPermissionDenied msg), s)))
   \<and> (\<not> user_eq (blog_user (obj inst)) u \<and> \<not> is_superuser u \<longrightarrow>
      (\<exists>msg. BlogOwner_perform_destroy u inst s = (Inl (RestPermissionDenied msg), s)))
   \<and> (user_eq (blog_user b) u \<or> is_superuser u \<longrightarrow>
      BlogOwner_perform_update (Inr b) u ser s = (Inr (), save ser None s))
   \<and> (user_eq (blog_user (obj inst)) u \<or> is_superuser u \<longrightarrow>
      BlogOwner_perform_destroy u inst s = (Inr (), delete inst s))"
  by (simp add: BlogOwner_perform_update_def BlogOwner_perform_destroy_def)

text \<open>
  C tries to rename and to delete A's blog and is refused with the tables unchanged;
  A renames and deletes it; the superuser deletes it.
\<close>

theorem blog_owner_update_destroy_witness:
  "\<not> user_eq (blog_user B1) carol \<and> \<not> is_superuser carol
   \<and> (\<exists>msg. BlogOwner_perform_update (Inr B1) carol (retitle B1 ''Renamed'') db0
               = (Inl (RestPermissionDenied msg), db0))
   \<and> (\<exists>msg. BlogOwner_perform_destroy carol (blog_instance B1) db0
               = (Inl (RestPermissionDenied msg), db0))
   \<and> user_eq (blog_user B1) alice
   \<and> BlogOwner_perform_update (Inr B1) alice (retitle B1 ''Renamed'') db0
       = (Inr (), db0\<lparr>blogs := [B1\<lparr>title := ''Renamed''\<rparr>, B2]\<rparr>)
   \<and> BlogOwner_perform_destroy alice (blog_instance B1) db0 = (Inr (), db0\<lparr>blogs := [B2]\<rparr>)
   \<and> is_superuser root
   \<and> BlogOwner_perform_destroy root (blog_instance B1) db0 = (Inr (), db0\<lparr>blogs := [B2]\<rparr>)"
  using blog_owner_update_destroy[where b = B1 and u = carol and ser = "retitle B1 ''Renamed''"
      and s = db0 and inst = "blog_instance B1"]
    blog_owner_update_destroy[where b = B1 and u = alice and ser = "retitle B1 ''Renamed''"
      and s = db0 and inst = "blog_instance B1"]
    blog_owner_update_destroy[where b = B1 and u = root and ser = "retitle B1 ''Renamed''"
      and s = db0 and inst = "blog_instance B1"]
  by (simp add: example_defs user_eq_def retitle_def blog_instance_def)

subsection \<open>C5\<close>

text \<open>
  Claim C5. For an authenticated user with no blog, \<^verbatim>\<open>perform_create\<close> inserts a blog
  titled "Blog de " followed by the username, owned by the user, under a key no blog
  had, and calls \<^verbatim>\<open>serializer.save\<close> with that blog. For an authenticated user who has
  a blog, \<^verbatim>\<open>serializer.save\<close> is called with that blog on the unchanged tables: no
  blog is created.
\<close>

theorem perform_create_blog:
  "is_authenticated u \<Longrightarrow>
     (user_blog s u = None \<longrightarrow>
        (\<exists>b. title b = ''Blog de '' @ username u \<and> blog_user b = u
            \<and> blog_id b \<notin> set (map blog_id (blogs s))
            \<and> perform_create u ser s = (Inr (), save ser (Some b) (s\<lparr>blogs := blogs s @ [b]\<rparr>))))
   \<and> (\<forall>b. user_blog s u = Some b \<longrightarrow> perform_create u ser s = (Inr (), save ser (Some b) s))"
proof -
  assume auth: "is_authenticated u"
  define b where "b = \<lparr>blog_id = next_pk (map blog_id (blogs s)),
    title = ''Blog de '' @ username u, description = ''Blog personal'', blog_user = u\<rparr>"
  have fresh: "blog_id b \<notin> set (map blog_id (blogs s))"
    using next_pk_fresh[of "map blog_id (blogs s)"] by (simp add: b_def)
  have created: "user_blog s u = None \<Longrightarrow>
      perform_create u ser s = (Inr (), save ser (Some b) (s\<lparr>blogs := blogs s @ [b]\<rparr>))"
    using auth by (simp add: perform_create_def Blog_objects_create_def Let_def b_def)
  have kept: "user_blog s u = Some c \<Longrightarrow>
      perform_create u ser s = (Inr (), save ser (Some c) s)" for c
    using auth by (simp add: perform_create_def)
  have "title b = ''Blog de '' @ username u" and "blog_user b = u"
    by (simp_all add: b_def)
  with fresh created kept show ?thesis by blast
qed

text \<open>
  \<open>dave\<close> has no blog and gets "Blog de dave"; A's post goes to her blog \<open>B1\<close>.
\<close>

theorem perform_create_blog_witness:
  "is_authenticated dave \<and> user_blog db0 dave = None
   \<and> (\<exists>b. title b = ''Blog de dave'' \<and> blog_user b = dave
          \<and> perform_create dave (post_serializer client_data) db0
              = (Inr (), save (post_serializer client_data) (Some b) (db0\<lparr>blogs := [B1, B2, b]\<rparr>)))
   \<and> is_authenticated alice \<and> user_blog db0 alice = Some B1
   \<and> perform_create alice (post_serializer client_data) db0
       = (Inr (), save (post_serializer client_data) (Some B1) db0)"
proof -
  let ?ser = "post_serializer client_data"
  have dave: "is_authenticated dave" "username dave = ''dave''"
    by (simp_all add: dave_def)
  have no_blog: "user_blog db0 dave = None"
    by (simp add: example_defs user_eq_def user_blog_def)
  have alice: "is_authenticated alice"
    by (simp add: alice_def)
  have has_blog: "user_blog db0 alice = Some B1"
    by (simp add: example_defs user_eq_def user_blog_def)
  have rows: "blogs db0 @ [b] = [B1, B2, b]" for b
    by (simp add: db0_def)
  from perform_create_blog[OF dave(1), of db0 ?ser] no_blog
  obtain b where "title b = ''Blog de '' @ username dave" "blog_user b = dave"
    "perform_create dave ?ser db0 = (Inr (), save ?ser (Some b) (db0\<lparr>blogs := blogs db0 @ [b]\<rparr>))"
    by blast
  then have created: "\<exists>b. title b = ''Blog de dave'' \<and> blog_user b = dave
      \<and> perform_create dave ?ser db0 = (Inr (), save ?ser (Some b) (db0\<lparr>blogs := [B1, B2, b]\<rparr>))"
    unfolding rows dave(2) by auto
  from perform_create_blog[OF alice, of db0 ?ser] has_blog
  have kept: "perform_create alice ?ser db0 = (Inr (), save ?ser (Some B1) db0)"
    by blast
  from dave(1) no_blog created alice has_blog kept show ?thesis by blast
qed

subsection \<open>C6\<close>

text \<open>
  Claim C6. For every action, \<^verbatim>\<open>PublicReadOnlyMixin.get_permissions\<close> returns a list of
  one element: an \<^verbatim>\<open>AllowAny\<close> instance when the action is "list" or "retrieve", an
  \<^verbatim>\<open>IsAuthenticated\<close> instance for every other action (no action included).
\<close>

theorem get_permissions_by_action:
  "get_permissions action =
     (if action = Some ''list'' \<or> action = Some ''retrieve''
      then [Permission AllowAny] else [Permission IsAuthenticated])
   \<and> length (get_permissions action) = 1"
  by (simp add: get_permissions_def)

subsection \<open>C7\<close>

text \<open>
  Claim C7. For a request whose user is not authenticated, \<^verbatim>\<open>perform_create\<close>,
  \<^verbatim>\<open>perform_update\<close> and \<^verbatim>\<open>perform_destroy\<close> of \<^verbatim>\<open>PostEditorMixin\<close> raise
  \<^verbatim>\<open>AuthenticationError\<close> and leave the tables as they were, whatever
  \<^verbatim>\<open>get_object()\<close> would give. For an authenticated request on a post \<open>p\<close>,
  \<^verbatim>\<open>perform_update\<close> and \<^verbatim>\<open>perform_destroy\<close> raise \<^verbatim>\<open>PermissionDenied\<close> exactly when
  \<^verbatim>\<open>can_edit_post(user, p)\<close> is false, then with the tables unchanged, and otherwise
  the outcome is that of the save, respectively the delete.
\<close>

theorem post_editor_guards:
  "(\<not> is_authenticated u \<longrightarrow>
      (\<exists>msg. perform_create u ser s = (Inl (AuthenticationError msg), s))
      \<and> (\<exists>msg. perform_update can_edit_post get_object u ser s = (Inl (AuthenticationError msg), s))
      \<and> (\<exists>msg. perform_destroy can_edit_post u inst s = (Inl (AuthenticationError msg), s)))
   \<and> (is_authenticated u \<longrightarrow>
      ((\<exists>msg. fst (perform_update can_edit_post (Inr p) u ser s) = Inl (DjangoPermissionDenied msg))
         \<longleftrightarrow> \<not> can_edit_post u p)
      \<and> ((\<exists>msg. fst (perform_destroy can_edit_post u inst s) = Inl (DjangoPermissionDenied msg))
         \<longleftrightarrow> \<not> can_edit_post u (obj inst))
      \<and> (\<not> can_edit_post u p \<longrightarrow> snd (perform_update can_edit_post (Inr p) u ser s) = s)
      \<and> (\<not> can_edit_post u (obj inst) \<longrightarrow> snd (perform_destroy can_edit_post u inst s) = s)
      \<and> (can_edit_post u p \<longrightarrow>
           perform_update can_edit_post (Inr p) u ser s = (Inr (), save ser None s))
      \<and> (can_edit_post u (obj inst) \<longrightarrow>
           perform_destroy can_edit_post u inst s = (Inr (), delete inst s)))"
  by (simp add: perform_create_def perform_update_def perform_destroy_def)

text \<open>
  The anonymous request is refused by all three methods; C may not delete A's post;
  A deletes it.
\<close>

theorem post_editor_guards_witness:
  "\<not> is_authenticated anonymous
   \<and> (\<exists>msg. perform_create anonymous (post_serializer client_data) db0
               = (Inl (AuthenticationError msg), db0))
   \<and> (\<exists>msg. perform_update owner_can_edit (Inr P1) anonymous (post_serializer client_data) db0
               = (Inl (AuthenticationError msg), db0))
   \<and> (\<exists>msg. perform_destroy owner_can_edit anonymous (post_instance P1) db0
               = (Inl (AuthenticationError msg), db0))
   \<and> is_authenticated carol \<and> \<not> owner_can_edit carol P1
   \<and> (\<exists>msg. fst (perform_destroy owner_can_edit carol (post_instance P1) db0)
               = Inl (DjangoPermissionDenied msg))
   \<and> snd (perform_destroy owner_can_edit carol (post_instance P1) db0) = db0
   \<and> is_authenticated alice \<and> owner_can_edit alice P1
   \<and> perform_destroy owner_can_edit alice (post_instance P1) db0 = (Inr (), db0\<lparr>posts := [P2]\<rparr>)"
  using post_editor_guards[where u = anonymous and ser = "post_serializer client_data"
      and s = db0 and can_edit_post = owner_can_edit and get_object = "Inr P1"
      and inst = "post_instance P1" and p = P1]
    post_editor_guards[where u = carol and ser = "post_serializer client_data"
      and s = db0 and can_edit_post = owner_can_edit and get_object = "Inr P1"
      and inst = "post_instance P1" and p = P1]
    post_editor_guards[where u = alice and ser = "post_serializer client_data"
      and s = db0 and can_edit_post = owner_can_edit and get_object = "Inr P1"
      and inst = "post_instance P1" and p = P1]
  by (simp add: example_defs user_eq_def owner_can_edit_def post_instance_def)

subsection \<open>C8\<close>

text \<open>
  Claim C8. \<^verbatim>\<open>AuthenticationMixin.authenticate_user\<close> raises
  \<^verbatim>\<open>InvalidCredentialsError\<close> exactly when the helper returns the falsy \<open>None\<close>, and
  otherwise returns the user the helper returned.
\<close>

theorem authenticate_user_raises_iff:
  "((\<exists>msg. authenticate_user helper uname password = Inl (InvalidCredentialsError msg))
      \<longleftrightarrow> helper uname password = None)
   \<and> (\<forall>u. helper uname password = Some u
          \<longrightarrow> authenticate_user helper uname password = Inr u)"
  by (auto simp: authenticate_user_def split: option.splits)

text \<open>
  With a helper that knows one password.
\<close>

theorem authenticate_user_raises_iff_witness:
  "check_password ''alice'' ''secret'' = Some alice
   \<and> authenticate_user check_password ''alice'' ''secret'' = Inr alice
   \<and> check_password ''alice'' ''guess'' = None
   \<and> (\<exists>msg. authenticate_user check_password ''alice'' ''guess'' = Inl (InvalidCredentialsError msg))"
  using authenticate_user_raises_iff[of check_password "''alice''" "''secret''"]
    authenticate_user_raises_iff[of check_password "''alice''" "''guess''"]
  by (simp add: check_password_def)

subsection \<open>C9\<close>

text \<open>
  Claim C9. For an authenticated create, \<^verbatim>\<open>serializer.save\<close> is always called with
  \<^verbatim>\<open>blog=\<close> a blog whose user is the requester: the one the user had, or the one just
  inserted. With the framework's serializer, the tables gain exactly one post, its
  blog is that blog, and the result is the same whatever blog the client sent: the
  client's value is ignored.
\<close>

theorem perform_create_own_blog:
  "is_authenticated u \<Longrightarrow>
     (\<exists>b s'. perform_create u ser s = (Inr (), save ser (Some b) s')
        \<and> user_eq (blog_user b) u \<and> b \<in> set (blogs s')
        \<and> (user_blog s u = Some b \<and> s' = s
           \<or> user_blog s u = None \<and> blogs s' = blogs s @ [b] \<and> posts s' = posts s))
   \<and> (\<exists>b p s'. perform_create u (post_serializer vd) s = (Inr (), s')
        \<and> posts s' = posts s @ [p] \<and> post_blog p = b \<and> post_fields p = vd_fields vd
        \<and> user_eq (blog_user b) u \<and> b \<in> set (blogs s'))
   \<and> perform_create u (post_serializer (vd\<lparr>vd_blog := client_blog\<rparr>)) s
        = perform_create u (post_serializer vd) s"
proof -
  assume auth: "is_authenticated u"
  obtain b s' where own: "user_eq (blog_user b) u" "b \<in> set (blogs s')"
      "user_blog s u = Some b \<and> s' = s
       \<or> user_blog s u = None \<and> blogs s' = blogs s @ [b] \<and> posts s' = posts s"
    and run: "\<And>ser. perform_create u ser s = (Inr (), save ser (Some b) s')"
  proof (cases "user_blog s u")
    case None
    obtain b s' where c:
      "Blog_objects_create (''Blog de '' @ username u) ''Blog personal'' u s = (b, s')"
      by (cases "Blog_objects_create (''Blog de '' @ username u) ''Blog personal'' u s")
    from Blog_objects_create_row[OF c] None perform_create_no_blog[OF auth None c]
    show ?thesis by (intro that[of b s']) (simp_all add: user_eq_def)
  next
    case (Some b)
    from user_blog_Some[OF Some] Some perform_create_has_blog[OF auth Some]
    show ?thesis by (intro that[of b s]) simp_all
  qed
  let ?p = "\<lparr>post_id = next_pk (map post_id (posts s')), post_fields = vd_fields vd,
             post_blog = b\<rparr>"
  have first: "\<exists>b s'. perform_create u ser s = (Inr (), save ser (Some b) s')
        \<and> user_eq (blog_user b) u \<and> b \<in> set (blogs s')
        \<and> (user_blog s u = Some b \<and> s' = s
           \<or> user_blog s u = None \<and> blogs s' = blogs s @ [b] \<and> posts s' = posts s)"
    using own run by blast
  have same_posts: "posts s' = posts s" using own(3) by auto
  have "perform_create u (post_serializer vd) s = (Inr (), s'\<lparr>posts := posts s' @ [?p]\<rparr>)"
    by (simp add: run save_post_serializer)
  moreover have "posts (s'\<lparr>posts := posts s' @ [?p]\<rparr>) = posts s @ [?p]"
    by (simp add: same_posts)
  moreover have "post_blog ?p = b" and "post_fields ?p = vd_fields vd" by simp_all
  moreover have "b \<in> set (blogs (s'\<lparr>posts := posts s' @ [?p]\<rparr>))" using own(2) by simp
  ultimately have second: "\<exists>b p s'. perform_create u (post_serializer vd) s = (Inr (), s')
        \<and> posts s' = posts s @ [p] \<and> post_blog p = b \<and> post_fields p = vd_fields vd
        \<and> user_eq (blog_user b) u \<and> b \<in> set (blogs s')"
    using own(1) by blast
  have third: "perform_create u (post_serializer (vd\<lparr>vd_blog := client_blog\<rparr>)) s
        = perform_create u (post_serializer vd) s"
    by (simp add: run save_post_serializer)
  from first second third show ?thesis by blast
qed

text \<open>
  A sends a post naming C's blog \<open>B2\<close>; the post is stored under her own blog \<open>B1\<close>.
\<close>

theorem perform_create_own_blog_witness:
  "is_authenticated alice \<and> vd_blog client_data = Some B2 \<and> \<not> user_eq (blog_user B2) alice
   \<and> perform_create alice (post_serializer client_data) db0
       = (Inr (), db0\<lparr>posts := [P1, P2,
            \<lparr>post_id = 3, post_fields = [(''title'', ''third'')], post_blog = B1\<rparr>]\<rparr>)
   \<and> perform_create alice (post_serializer (client_data\<lparr>vd_blog := None\<rparr>)) db0
       = perform_create alice (post_serializer client_data) db0"
  using perform_create_own_blog[of alice "post_serializer client_data" db0 client_data None]
  by (simp add: example_defs user_eq_def client_data_def perform_create_def user_blog_def
      post_serializer_def serializer_create_def next_pk_def)

subsection \<open>C10\<close>

text \<open>
  Claim C10. The list returned by \<^verbatim>\<open>get_readonly_fields\<close> contains every field of the
  parent's list. It is the parent's list, or the parent's list with \<open>''blog''\<close>
  appended once when the parent's list did not have it; when the parent's list has
  \<open>''blog''\<close>, it is returned as it is.
\<close>

theorem readonly_fields_keeps_parent:
  "(\<forall>f \<in> set ro. f \<in> set (get_readonly_fields ro u ob))
   \<and> (get_readonly_fields ro u ob = ro
        \<or> (get_readonly_fields ro u ob = ro @ [''blog''] \<and> ''blog'' \<notin> set ro))
   \<and> (''blog'' \<in> set ro \<longrightarrow> get_readonly_fields ro u ob = ro)
   \<and> count_list (get_readonly_fields ro u ob) ''blog'' \<le> max 1 (count_list ro ''blog'')"
  by (auto simp: get_readonly_fields_def Let_def)

text \<open>
  A parent's list without and with \<open>''blog''\<close>.
\<close>

theorem readonly_fields_keeps_parent_witness:
  "''title'' \<in> set (get_readonly_fields [''title''] alice (Some P1))
   \<and> ''blog'' \<in> set [''blog'', ''title'']
   \<and> get_readonly_fields [''blog'', ''title''] alice (Some P1) = [''blog'', ''title'']"
  using readonly_fields_keeps_parent[of "[''title'']" alice "Some P1"]
    readonly_fields_keeps_parent[of "[''blog'', ''title'']" alice "Some P1"]
  by simp

end
